theory Spec2Isabelle
  imports Main
begin

section \<open>The pull command of kubectl-image (cmd/kubectl-image/pull.go)\<close>

text \<open>
  The command is a sequential chain of calls into libraries (cobra/pflag, client-go,
  gRPC, containers/image) and into helpers of the same package whose bodies are not part
  of the sources at hand (\<open>indexFor\<close>, \<open>createHomeTempDir\<close>, \<open>TempFile\<close>,
  \<open>localStorageRef\<close>). The model keeps the control flow of \<open>RunE\<close> and
  \<open>pullImage\<close> as written and takes the outcome of every such call from a
  \<open>world\<close> record, so that each theorem quantifies over all behaviours of the
  collaborators. Every call is logged, in program order, in a trace of events; a Go
  \<open>defer\<close> is an event appended after the events of the rest of the function body.
  The \<open>context.Context\<close> argument is handed through unchanged by the source and is left
  out of the model.
\<close>

subsection \<open>Values\<close>

text \<open>A Go \<open>error\<close>: \<open>fmt.Errorf\<close> without and with a wrapped cause (\<open>%w\<close>).\<close>

datatype err = Errorf string | Wrapf string err

record imageindex =
  server :: string
  namespace :: string
  name :: string

text \<open>The one field of \<open>rest.Config\<close> that the command reads.\<close>

record rest_config =
  BearerToken :: string

record tls_config =
  InsecureSkipVerify :: bool

record header =
  Name :: string
  Namespace :: string
  Token :: string

datatype packet = Packet_Header header

datatype client_conn = ClientConn nat
datatype pull_stream = PullStream nat
datatype fsh = TempDir string
datatype os_file = File string
datatype progress_bar = ProgressBar nat
datatype image_reference = ImageReference string

text \<open>The \<open>func()\<close> that \<open>TempFile\<close> hands out together with the file.\<close>

datatype release = Release nat

fun file_Name :: "os_file \<Rightarrow> string" where
  "file_Name (File p) = p"

datatype policy_requirement =
    PRInsecureAcceptAnything
  | PRReject
  | PRSignedBy string

record policy =
  Default :: "policy_requirement list"
  Transports :: "(string \<times> (string \<times> policy_requirement list) list) list"

datatype policy_context = PolicyContext policy

subsection \<open>Flags\<close>

datatype flag_value = BoolValue bool | StringValue string

type_synonym flagset = "(string \<times> flag_value) list"

record command =
  flags :: flagset

text \<open>\<open>FlagSet.Bool(name, value, usage)\<close> defines a flag whose value is its default.\<close>

definition Flags_Bool :: "string \<Rightarrow> bool \<Rightarrow> flagset \<Rightarrow> flagset" where
  "Flags_Bool n d fs = fs @ [(n, BoolValue d)]"

text \<open>What parsing \<open>--name=b\<close> on the command line does to a defined flag.\<close>

definition Flags_Set :: "string \<Rightarrow> flag_value \<Rightarrow> flagset \<Rightarrow> flagset" where
  "Flags_Set n v fs = map (\<lambda>(m, u). if m = n then (m, v) else (m, u)) fs"

definition GetBool :: "flagset \<Rightarrow> string \<Rightarrow> err + bool" where
  "GetBool fs n =
     (case map_of fs n of
        None \<Rightarrow> Inl (Errorf ''flag accessed but not defined'')
      | Some (BoolValue b) \<Rightarrow> Inr b
      | Some (StringValue s) \<Rightarrow> Inl (Errorf ''trying to get bool value of flag of type string''))"

text \<open>The command before \<open>init\<close> has run, and \<open>init\<close> (pull.go, lines 38 to 40).\<close>

definition imagepull :: command where
  "imagepull = \<lparr>flags = []\<rparr>"

definition init :: "command \<Rightarrow> command" where
  "init c = c\<lparr>flags := Flags_Bool ''insecure'' False (flags c)\<rparr>"

subsection \<open>Collaborators and events\<close>

record world =
  getenv :: "string \<Rightarrow> string"
  buildConfigFromFlags :: "string \<Rightarrow> string \<Rightarrow> err + rest_config"
  indexFor :: "string \<Rightarrow> err + imageindex"
  dialContext :: "string \<Rightarrow> tls_config \<Rightarrow> err + client_conn"
  pull :: "client_conn \<Rightarrow> packet \<Rightarrow> err + pull_stream"
  createHomeTempDir :: "err + fsh"
  tempFile :: "fsh \<Rightarrow> err + (os_file \<times> release)"
  progbarNew :: "string \<Rightarrow> progress_bar"
  receive :: "pull_stream \<Rightarrow> os_file \<Rightarrow> progress_bar \<Rightarrow> err option"
  parseImageName :: "string \<Rightarrow> err + image_reference"
  localStorageRef :: "imageindex \<Rightarrow> err + image_reference"
  newPolicyContext :: "policy \<Rightarrow> err + policy_context"
  copyImage :: "policy_context \<Rightarrow> image_reference \<Rightarrow> image_reference \<Rightarrow> err option"

text \<open>
  One event per call, with its arguments and, where a resource may come back, its result.
  \<open>Call r\<close> is an invocation of the release function \<open>r\<close>. \<open>ConnClose\<close> is
  \<open>ClientConn.Close\<close>, which a gRPC client may call on a connection.
\<close>

datatype event =
    EvGetBool string
  | EvGetenv string
  | EvBuildConfigFromFlags string string
  | EvIndexFor string
  | EvDialContext string tls_config "err + client_conn"
  | EvPull client_conn packet "err + pull_stream"
  | EvCreateHomeTempDir "err + fsh"
  | EvTempFile fsh "err + (os_file \<times> release)"
  | EvProgbarNew string progress_bar
  | EvReceive pull_stream os_file progress_bar "err option"
  | Call release
  | EvProgbarWait progress_bar
  | EvParseImageName string "err + image_reference"
  | EvLocalStorageRef imageindex
  | EvNewPolicyContext policy
  | EvCopyImage policy_context image_reference image_reference
  | ConnClose client_conn

fun is_Call :: "event \<Rightarrow> bool" where
  "is_Call (Call r) = True"
| "is_Call e = False"

fun is_Dial :: "event \<Rightarrow> bool" where
  "is_Dial (EvDialContext s t r) = True"
| "is_Dial e = False"

fun is_ConnClose :: "event \<Rightarrow> bool" where
  "is_ConnClose (ConnClose c) = True"
| "is_ConnClose e = False"

fun is_ParseImageName :: "event \<Rightarrow> bool" where
  "is_ParseImageName (EvParseImageName s r) = True"
| "is_ParseImageName e = False"

fun is_CopyImage :: "event \<Rightarrow> bool" where
  "is_CopyImage (EvCopyImage p d s) = True"
| "is_CopyImage e = False"

subsection \<open>pullImage\<close>

text \<open>
  The three results of \<open>pullImage\<close>, each of which Go allows to be nil:
  the reference, the clean-up function and the error.
\<close>

type_synonym pull_result = "image_reference option \<times> release option \<times> err option"

text \<open>
  Lines 157 to 169: the part of \<open>pullImage\<close> that runs with the deferred
  \<open>pbar.Wait()\<close> pending.
\<close>

definition receiveAndParse ::
  "world \<Rightarrow> pull_stream \<Rightarrow> os_file \<Rightarrow> release \<Rightarrow> progress_bar \<Rightarrow> pull_result \<times> event list" where
  "receiveAndParse w stream fp cleanup pbar =
     (let received = receive w stream fp pbar;
          ev1 = [EvReceive stream fp pbar received]
      in case received of
           Some e \<Rightarrow>
             ((None, None, Some (Wrapf ''error receiving file: %w'' e)), ev1 @ [Call cleanup])
         | None \<Rightarrow>
             (let str = ''docker-archive:'' @ file_Name fp;
                  parsed = parseImageName w str;
                  ev2 = ev1 @ [EvParseImageName str parsed]
              in case parsed of
                   Inl e \<Rightarrow>
                     ((None, None, Some (Wrapf ''error parsing reference: %w'' e)),
                      ev2 @ [Call cleanup])
                 | Inr fromref \<Rightarrow> ((Some fromref, Some cleanup, None), ev2)))"

definition pullImage ::
  "world \<Rightarrow> imageindex \<Rightarrow> string \<Rightarrow> bool \<Rightarrow> pull_result \<times> event list" where
  "pullImage w idx token insecure =
     (let tlscfg = \<lparr>InsecureSkipVerify = insecure\<rparr>;
          dialed = dialContext w (server idx) tlscfg;
          ev1 = [EvDialContext (server idx) tlscfg dialed]
      in case dialed of
           Inl e \<Rightarrow> ((None, None, Some (Wrapf ''error connecting: %w'' e)), ev1)
         | Inr conn \<Rightarrow>
      (let hdr = \<lparr>Name = name idx, Namespace = namespace idx, Token = token\<rparr>;
           pkt = Packet_Header hdr;
           pulled = pull w conn pkt;
           ev2 = ev1 @ [EvPull conn pkt pulled]
       in case pulled of
            Inl e \<Rightarrow> ((None, None, Some (Wrapf ''error pulling: %w'' e)), ev2)
          | Inr stream \<Rightarrow>
      (let dir = createHomeTempDir w;
           ev3 = ev2 @ [EvCreateHomeTempDir dir]
       in case dir of
            Inl e \<Rightarrow> ((None, None, Some (Wrapf ''error creating temp dir: %w'' e)), ev3)
          | Inr fsh \<Rightarrow>
      (let tmp = tempFile w fsh;
           ev4 = ev3 @ [EvTempFile fsh tmp]
       in case tmp of
            Inl e \<Rightarrow> ((None, None, Some (Wrapf ''error creating temp file: %w'' e)), ev4)
          | Inr (fp, cleanup) \<Rightarrow>
      (let pbar = progbarNew w ''Pulling'';
           ev5 = ev4 @ [EvProgbarNew ''Pulling'' pbar];
           (res, evs) = receiveAndParse w stream fp cleanup pbar
       in (res, ev5 @ evs @ [EvProgbarWait pbar]))))))"

subsection \<open>RunE\<close>

text \<open>
  What a run of the command ends in. A deferred call of a nil function would panic; the
  model keeps that branch, and \<open>RunE_never_panics\<close> shows it is dead.
\<close>

datatype outcome = Return "err option" | Panic

definition pol :: policy where
  "pol = \<lparr>Default = [PRInsecureAcceptAnything], Transports = []\<rparr>"

text \<open>Lines 82 to 101: the part of \<open>RunE\<close> that runs with the deferred \<open>cleanup()\<close> pending.\<close>

definition commitImage ::
  "world \<Rightarrow> imageindex \<Rightarrow> image_reference \<Rightarrow> err option \<times> event list" where
  "commitImage w tidx srcref =
     (let ev1 = [EvLocalStorageRef tidx]
      in case localStorageRef w tidx of
           Inl e \<Rightarrow> (Some e, ev1)
         | Inr dstref \<Rightarrow>
             (let ev2 = ev1 @ [EvNewPolicyContext pol]
              in case newPolicyContext w pol of
                   Inl e \<Rightarrow> (Some e, ev2)
                 | Inr polctx \<Rightarrow>
                     (copyImage w polctx dstref srcref,
                      ev2 @ [EvCopyImage polctx dstref srcref])))"

definition RunE :: "world \<Rightarrow> command \<Rightarrow> string list \<Rightarrow> outcome \<times> event list" where
  "RunE w c args =
     (if length args \<noteq> 1 then (Return (Some (Errorf ''invalid number of arguments'')), [])
      else
        (let ev1 = [EvGetBool ''insecure'']
         in case GetBool (flags c) ''insecure'' of
              Inl e \<Rightarrow> (Return (Some e), ev1)
            | Inr insecure \<Rightarrow>
        (let kubeconfig = getenv w ''KUBECONFIG'';
             ev2 = ev1 @ [EvGetenv ''KUBECONFIG'', EvBuildConfigFromFlags '''' kubeconfig]
         in case buildConfigFromFlags w '''' kubeconfig of
              Inl e \<Rightarrow> (Return (Some e), ev2)
            | Inr config \<Rightarrow>
        if BearerToken config = ''''
        then (Return (Some (Errorf ''empty token, you need a kubernetes token to pull'')), ev2)
        else
        (let ev3 = ev2 @ [EvIndexFor (args ! 0)]
         in case indexFor w (args ! 0) of
              Inl e \<Rightarrow> (Return (Some e), ev3)
            | Inr tidx \<Rightarrow>
        (let ((srcref, cleanup, perr), pevs) = pullImage w tidx (BearerToken config) insecure;
             ev4 = ev3 @ pevs
         in case perr of
              Some e \<Rightarrow> (Return (Some e), ev4)
            | None \<Rightarrow>
                (case (srcref, cleanup) of
                   (Some ref, Some cl) \<Rightarrow>
                     (let (cerr, cevs) = commitImage w tidx ref
                      in (Return cerr, ev4 @ cevs @ [Call cl]))
                 | _ \<Rightarrow> (Panic, ev4)))))))"

subsection \<open>Resources alive after a trace\<close>

text \<open>
  The connections dialled and not closed, and the temp files acquired and not released,
  after the events of a trace have happened in order.

  Modelled from the spec: the body of \<open>TempFile\<close>, which builds the release function, is
  not part of the sources at hand; by section 4.5 of the specification the release
  function removes its file and is idempotent.
\<close>

record resources =
  conns :: "client_conn list"
  files :: "(os_file \<times> release) list"

fun track :: "resources \<Rightarrow> event \<Rightarrow> resources" where
  "track r (EvDialContext s t (Inr cn)) = r\<lparr>conns := cn # conns r\<rparr>"
| "track r (ConnClose cn) = r\<lparr>conns := removeAll cn (conns r)\<rparr>"
| "track r (EvTempFile d (Inr (fp, cl))) = r\<lparr>files := (fp, cl) # files r\<rparr>"
| "track r (Call cl) = r\<lparr>files := filter (\<lambda>fc. snd fc \<noteq> cl) (files r)\<rparr>"
| "track r e = r"

definition live :: "event list \<Rightarrow> resources" where
  "live evs = foldl track \<lparr>conns = [], files = []\<rparr> evs"

subsection \<open>Concrete runs\<close>

text \<open>
  A world in which every collaborator succeeds, for the coordinate
  \<open>svc:443/team-a/app\<close>, and variations of it in which one step fails.
\<close>

definition idx0 :: imageindex where
  "idx0 = \<lparr>server = ''svc:443'', namespace = ''team-a'', name = ''app''\<rparr>"

definition args0 :: "string list" where
  "args0 = [''svc:443/team-a/app'']"

definition world_ok :: world where
  "world_ok =
     \<lparr>getenv = (\<lambda>v. ''/home/u/.kube/config''),
      buildConfigFromFlags = (\<lambda>m p. Inr \<lparr>BearerToken = ''tok''\<rparr>),
      indexFor = (\<lambda>s. Inr idx0),
      dialContext = (\<lambda>s t. Inr (ClientConn 0)),
      pull = (\<lambda>c p. Inr (PullStream 0)),
      createHomeTempDir = Inr (TempDir ''/home/u/.image''),
      tempFile = (\<lambda>d. Inr (File ''/home/u/.image/f1'', Release 0)),
      progbarNew = (\<lambda>s. ProgressBar 0),
      receive = (\<lambda>s f p. None),
      parseImageName = (\<lambda>s. Inr (ImageReference s)),
      localStorageRef = (\<lambda>i. Inr (ImageReference ''containers-storage:team-a/app'')),
      newPolicyContext = (\<lambda>p. Inr (PolicyContext p)),
      copyImage = (\<lambda>p d s. None)\<rparr>"

definition world_recv_fail :: world where
  "world_recv_fail = world_ok\<lparr>receive := (\<lambda>s f p. Some (Errorf ''connection reset''))\<rparr>"

definition world_parse_fail :: world where
  "world_parse_fail = world_ok\<lparr>parseImageName := (\<lambda>s. Inl (Errorf ''unknown transport''))\<rparr>"

definition world_commit_fail :: world where
  "world_commit_fail = world_ok\<lparr>copyImage := (\<lambda>p d s. Some (Errorf ''no space left''))\<rparr>"

text \<open>An empty token together with a coordinate that the resolver rejects.\<close>

definition world_no_token :: world where
  "world_no_token =
     world_ok\<lparr>buildConfigFromFlags := (\<lambda>m p. Inr \<lparr>BearerToken = ''''\<rparr>),
              indexFor := (\<lambda>s. Inl (Errorf ''invalid image reference''))\<rparr>"

text \<open>The command as \<open>init\<close> leaves it, and after \<open>--insecure\<close> was parsed.\<close>

definition cmd0 :: command where
  "cmd0 = init imagepull"

definition cmd_insecure :: command where
  "cmd_insecure = cmd0\<lparr>flags := Flags_Set ''insecure'' (BoolValue True) (flags cmd0)\<rparr>"

section \<open>Properties\<close>

subsection \<open>Auxiliary facts\<close>

lemmas pull_defs = pullImage_def receiveAndParse_def Let_def

lemmas world_defs = world_ok_def world_recv_fail_def world_parse_fail_def
  world_commit_fail_def world_no_token_def idx0_def args0_def

lemmas cmd_defs = cmd0_def cmd_insecure_def init_def imagepull_def Flags_Bool_def
  Flags_Set_def GetBool_def

lemmas run_defs = RunE_def commitImage_def pol_def

text \<open>\<open>pullImage\<close> returns either a reference with its clean-up function, or an error alone.\<close>

lemma pullImage_shape:
  "pullImage w idx tok ins = ((r, c, e), tr) \<Longrightarrow>
     (e = None \<longrightarrow> r \<noteq> None \<and> c \<noteq> None) \<and> (e \<noteq> None \<longrightarrow> r = None \<and> c = None)"
  by (auto simp: pull_defs split: sum.splits option.splits prod.splits)

text \<open>The seven ways through \<open>RunE\<close>, each with its result and its trace.\<close>

lemma RunE_cases [case_names arity flag config token index pull commit]:
  obtains
    (arity) "length args \<noteq> 1"
      "RunE w c args = (Return (Some (Errorf ''invalid number of arguments'')), [])"
  | (flag) e where "length args = 1" "GetBool (flags c) ''insecure'' = Inl e"
      "RunE w c args = (Return (Some e), [EvGetBool ''insecure''])"
  | (config) b e where "length args = 1" "GetBool (flags c) ''insecure'' = Inr b"
      "buildConfigFromFlags w '''' (getenv w ''KUBECONFIG'') = Inl e"
      "RunE w c args = (Return (Some e),
         [EvGetBool ''insecure'', EvGetenv ''KUBECONFIG'',
          EvBuildConfigFromFlags '''' (getenv w ''KUBECONFIG'')])"
  | (token) b cfg where "length args = 1" "GetBool (flags c) ''insecure'' = Inr b"
      "buildConfigFromFlags w '''' (getenv w ''KUBECONFIG'') = Inr cfg"
      "BearerToken cfg = ''''"
      "RunE w c args = (Return (Some (Errorf ''empty token, you need a kubernetes token to pull'')),
         [EvGetBool ''insecure'', EvGetenv ''KUBECONFIG'',
          EvBuildConfigFromFlags '''' (getenv w ''KUBECONFIG'')])"
  | (index) b cfg e where "length args = 1" "GetBool (flags c) ''insecure'' = Inr b"
      "buildConfigFromFlags w '''' (getenv w ''KUBECONFIG'') = Inr cfg"
      "BearerToken cfg \<noteq> ''''" "indexFor w (args ! 0) = Inl e"
      "RunE w c args = (Return (Some e),
         [EvGetBool ''insecure'', EvGetenv ''KUBECONFIG'',
          EvBuildConfigFromFlags '''' (getenv w ''KUBECONFIG''), EvIndexFor (args ! 0)])"
  | (pull) b cfg tidx e ptr where "length args = 1" "GetBool (flags c) ''insecure'' = Inr b"
      "buildConfigFromFlags w '''' (getenv w ''KUBECONFIG'') = Inr cfg"
      "BearerToken cfg \<noteq> ''''" "indexFor w (args ! 0) = Inr tidx"
      "pullImage w tidx (BearerToken cfg) b = ((None, None, Some e), ptr)"
      "RunE w c args = (Return (Some e),
         [EvGetBool ''insecure'', EvGetenv ''KUBECONFIG'',
          EvBuildConfigFromFlags '''' (getenv w ''KUBECONFIG''), EvIndexFor (args ! 0)] @ ptr)"
  | (commit) b cfg tidx ref cl ptr cerr cevs where
      "length args = 1" "GetBool (flags c) ''insecure'' = Inr b"
      "buildConfigFromFlags w '''' (getenv w ''KUBECONFIG'') = Inr cfg"
      "BearerToken cfg \<noteq> ''''" "indexFor w (args ! 0) = Inr tidx"
      "pullImage w tidx (BearerToken cfg) b = ((Some ref, Some cl, None), ptr)"
      "commitImage w tidx ref = (cerr, cevs)"
      "RunE w c args = (Return cerr,
         [EvGetBool ''insecure'', EvGetenv ''KUBECONFIG'',
          EvBuildConfigFromFlags '''' (getenv w ''KUBECONFIG''), EvIndexFor (args ! 0)]
         @ ptr @ cevs @ [Call cl])"
proof (cases "length args \<noteq> 1")
  case True
  then show ?thesis using arity by (simp add: RunE_def)
next
  case len: False
  show ?thesis
  proof (cases "GetBool (flags c) ''insecure''")
    case (Inl e)
    then show ?thesis using len flag by (simp add: RunE_def)
  next
    case gb: (Inr b)
    show ?thesis
    proof (cases "buildConfigFromFlags w '''' (getenv w ''KUBECONFIG'')")
      case (Inl e)
      then show ?thesis using len gb config by (simp add: RunE_def)
    next
      case bc: (Inr cfg)
      show ?thesis
      proof (cases "BearerToken cfg = ''''")
        case True
        then show ?thesis using len gb bc token by (simp add: RunE_def)
      next
        case tk: False
        show ?thesis
        proof (cases "indexFor w (args ! 0)")
          case (Inl e)
          then show ?thesis using len gb bc tk index by (simp add: RunE_def)
        next
          case ix: (Inr tidx)
          obtain r cu pe ptr where p: "pullImage w tidx (BearerToken cfg) b = ((r, cu, pe), ptr)"
            by (metis prod.exhaust)
          show ?thesis
          proof (cases pe)
            case (Some e)
            with pullImage_shape[OF p] have "r = None" "cu = None" by simp_all
            with Some p show ?thesis using len gb bc tk ix pull by (simp add: RunE_def)
          next
            case None
            with pullImage_shape[OF p] obtain ref cl where "r = Some ref" "cu = Some cl" by auto
            moreover obtain cerr cevs where "commitImage w tidx ref = (cerr, cevs)"
              by (metis prod.exhaust)
            ultimately show ?thesis using None p len gb bc tk ix commit by (simp add: RunE_def)
          qed
        qed
      qed
    qed
  qed
qed

text \<open>The deferred clean-up of \<open>RunE\<close> is never a nil function.\<close>

lemma RunE_never_panics: "fst (RunE w c args) \<noteq> Panic"
  by (cases rule: RunE_cases[of args w c]) simp_all

lemma pullImage_Calls:
  assumes "pullImage w idx tok ins = ((r, c, e), tr)"
    and "EvTempFile d (Inr (fp, cl)) \<in> set tr"
  shows "(e = None \<longrightarrow> c = Some cl \<and> filter is_Call tr = [])
       \<and> (e \<noteq> None \<longrightarrow> filter is_Call tr = [Call cl])"
  using assms
  by (auto simp: pull_defs split: sum.splits option.splits prod.splits)

lemma pullImage_files:
  assumes "pullImage w idx tok ins = ((r, c, e), tr)"
  shows "(e \<noteq> None \<longrightarrow> files (live tr) = [])
       \<and> (e = None \<longrightarrow> (\<exists>d fp cl. c = Some cl \<and> files (live tr) = [(fp, cl)]
                                  \<and> EvTempFile d (Inr (fp, cl)) \<in> set tr))"
  using assms
  by (auto simp: pull_defs live_def split: sum.splits option.splits prod.splits)

lemma pullImage_Dial:
  assumes "pullImage w idx tok ins = (res, tr)"
    and "EvDialContext s t x \<in> set tr"
  shows "s = server idx" and "t = \<lparr>InsecureSkipVerify = ins\<rparr>" and "x = dialContext w s t"
  using assms
  by (auto simp: pull_defs split: sum.splits option.splits prod.splits)

lemma commitImage_track:
  assumes "commitImage w tidx ref = (cerr, cevs)"
  shows "foldl track r cevs = r"
    and "filter is_Call cevs = []"
    and "EvDialContext s t y \<notin> set cevs"
    and "EvTempFile d x \<notin> set cevs"
  using assms
  by (auto simp: commitImage_def Let_def split: sum.splits)

lemma commitImage_policy:
  assumes "commitImage w tidx ref = (cerr, cevs)"
  shows "EvNewPolicyContext p \<in> set cevs \<Longrightarrow> p = pol"
    and "EvCopyImage pc d s \<in> set cevs \<Longrightarrow>
           newPolicyContext w pol = Inr pc \<and> localStorageRef w tidx = Inr d \<and> s = ref
           \<and> cerr = copyImage w pc d s"
  using assms
  by (auto simp: commitImage_def Let_def split: sum.splits)

lemma pullImage_no_policy_events:
  assumes "pullImage w idx tok ins = (res, tr)"
  shows "EvNewPolicyContext p \<notin> set tr" and "EvCopyImage pc dr sr \<notin> set tr"
  using assms
  by (auto simp: pull_defs split: sum.splits option.splits prod.splits)

subsection \<open>Argument count\<close>

text \<open>
  Claim C8. For every argument list whose length is not one, \<open>RunE\<close> returns the usage
  error and its trace is empty: no flag was read, no configuration loaded, and no network or
  file-system call was made.
\<close>

theorem wrong_arity_is_usage_error:
  "length args \<noteq> 1 \<Longrightarrow>
     RunE w c args = (Return (Some (Errorf ''invalid number of arguments'')), [])"
  by (simp add: RunE_def)

theorem wrong_arity_is_usage_error_witness:
  "length [''svc:443/team-a/app'', ''extra''] \<noteq> 1
   \<and> RunE world_ok cmd0 [''svc:443/team-a/app'', ''extra'']
       = (Return (Some (Errorf ''invalid number of arguments'')), [])"
proof -
  have h: "length [''svc:443/team-a/app'', ''extra''] \<noteq> 1" by simp
  show ?thesis using h wrong_arity_is_usage_error [OF h, of world_ok cmd0] by simp
qed

subsection \<open>Failure of the receive step\<close>

text \<open>
  Claim C2. If the receive step fails (it runs only once the temp file exists, and however
  many bytes it wrote), then the trace of \<open>pullImage\<close> ends with the failed receive, the
  call of the release function that \<open>TempFile\<close> returned with that file, and the wait for
  the progress bar; \<open>pullImage\<close> returns the wrapped error with no reference and no
  clean-up function; and the reference parser is never called.
\<close>

theorem receive_failure_releases_file:
  assumes "EvReceive st fp pb (Some e) \<in> set (snd (pullImage w idx tok ins))"
  shows "\<exists>pre d cl. snd (pullImage w idx tok ins) =
           pre @ [EvTempFile d (Inr (fp, cl)), EvProgbarNew ''Pulling'' pb,
                  EvReceive st fp pb (Some e), Call cl, EvProgbarWait pb]
         \<and> fst (pullImage w idx tok ins) = (None, None, Some (Wrapf ''error receiving file: %w'' e))
         \<and> \<not> (\<exists>x \<in> set (snd (pullImage w idx tok ins)). is_ParseImageName x)"
  using assms
  by (auto simp: pull_defs split: sum.splits option.splits prod.splits)

theorem receive_failure_releases_file_witness:
  "EvReceive (PullStream 0) (File ''/home/u/.image/f1'') (ProgressBar 0)
       (Some (Errorf ''connection reset''))
     \<in> set (snd (pullImage world_recv_fail idx0 ''tok'' False))
   \<and> fst (pullImage world_recv_fail idx0 ''tok'' False)
       = (None, None, Some (Wrapf ''error receiving file: %w'' (Errorf ''connection reset'')))
   \<and> filter is_Call (snd (pullImage world_recv_fail idx0 ''tok'' False)) = [Call (Release 0)]
   \<and> filter is_ParseImageName (snd (pullImage world_recv_fail idx0 ''tok'' False)) = []"
proof -
  have h: "EvReceive (PullStream 0) (File ''/home/u/.image/f1'') (ProgressBar 0)
       (Some (Errorf ''connection reset''))
     \<in> set (snd (pullImage world_recv_fail idx0 ''tok'' False))"
    by (simp add: pull_defs world_defs)
  from receive_failure_releases_file [OF h]
  have "fst (pullImage world_recv_fail idx0 ''tok'' False)
       = (None, None, Some (Wrapf ''error receiving file: %w'' (Errorf ''connection reset'')))"
    by blast
  moreover have "filter is_Call (snd (pullImage world_recv_fail idx0 ''tok'' False)) = [Call (Release 0)]"
    "filter is_ParseImageName (snd (pullImage world_recv_fail idx0 ''tok'' False)) = []"
    by (simp_all add: pull_defs world_defs)
  ultimately show ?thesis using h by simp
qed

subsection \<open>Release of the temp file\<close>

text \<open>
  Claim C1. Whenever \<open>pullImage\<close> has acquired the temp file, the release function that
  \<open>TempFile\<close> returned with it is called exactly once. If \<open>pullImage\<close> fails after
  the acquisition (the receive step or the parsing of the reference failed), the one call
  is in the trace of \<open>pullImage\<close> itself. If \<open>pullImage\<close> succeeds, its trace holds
  no call and the release function is the clean-up function it returns. \<open>RunE\<close> defers
  that function, so in every run of \<open>RunE\<close> in which the file was acquired, whatever the
  later steps do, the calls of release functions are exactly this one call.
\<close>

theorem temp_file_released_exactly_once:
  "(pullImage w idx tok ins = ((r, cu, e), tr) \<and> EvTempFile d (Inr (fp, cl)) \<in> set tr \<longrightarrow>
      (e \<noteq> None \<longrightarrow> cu = None \<and> filter is_Call tr = [Call cl]) \<and>
      (e = None \<longrightarrow> cu = Some cl \<and> filter is_Call tr = []))
   \<and> (EvTempFile d' (Inr (fp', cl')) \<in> set (snd (RunE w' c args)) \<longrightarrow>
      filter is_Call (snd (RunE w' c args)) = [Call cl'])"
proof -
  have a: "(e \<noteq> None \<longrightarrow> cu = None \<and> filter is_Call tr = [Call cl]) \<and>
           (e = None \<longrightarrow> cu = Some cl \<and> filter is_Call tr = [])"
    if p: "pullImage w idx tok ins = ((r, cu, e), tr)"
      and m: "EvTempFile d (Inr (fp, cl)) \<in> set tr"
    using pullImage_Calls[OF p m] pullImage_shape[OF p] by simp
  have b: "filter is_Call (snd (RunE w' c args)) = [Call cl']"
    if m: "EvTempFile d' (Inr (fp', cl')) \<in> set (snd (RunE w' c args))"
  proof (cases rule: RunE_cases[of args w' c])
    case arity
    then show ?thesis using m by simp
  next
    case (flag e)
    then show ?thesis using m by simp
  next
    case (config b e)
    then show ?thesis using m by simp
  next
    case (token b cfg)
    then show ?thesis using m by simp
  next
    case (index b cfg e)
    then show ?thesis using m by simp
  next
    case (pull b cfg tidx e ptr)
    with m have "EvTempFile d' (Inr (fp', cl')) \<in> set ptr" by simp
    from pullImage_Calls[OF pull(6) this] pull(7) show ?thesis by simp
  next
    case (commit b cfg tidx ref cl0 ptr cerr cevs)
    with m commitImage_track(4)[OF commit(7)]
    have "EvTempFile d' (Inr (fp', cl')) \<in> set ptr" by auto
    from pullImage_Calls[OF commit(6) this]
    have "cl0 = cl'" "filter is_Call ptr = []" by simp_all
    with commit(8) commitImage_track(2)[OF commit(7)] show ?thesis by simp
  qed
  from a b show ?thesis by blast
qed

theorem temp_file_released_exactly_once_witness:
  "EvTempFile (TempDir ''/home/u/.image'') (Inr (File ''/home/u/.image/f1'', Release 0))
     \<in> set (snd (RunE world_commit_fail cmd0 args0))
   \<and> fst (RunE world_commit_fail cmd0 args0) = Return (Some (Errorf ''no space left''))
   \<and> filter is_Call (snd (RunE world_commit_fail cmd0 args0)) = [Call (Release 0)]"
proof -
  have h: "EvTempFile (TempDir ''/home/u/.image'') (Inr (File ''/home/u/.image/f1'', Release 0))
     \<in> set (snd (RunE world_commit_fail cmd0 args0))"
    by (simp add: run_defs pull_defs world_defs cmd_defs)
  have r: "fst (RunE world_commit_fail cmd0 args0) = Return (Some (Errorf ''no space left''))"
    by (simp add: run_defs pull_defs world_defs cmd_defs)
  from h temp_file_released_exactly_once
    [where w' = world_commit_fail and c = cmd0 and args = args0
       and d' = "TempDir ''/home/u/.image''" and fp' = "File ''/home/u/.image/f1''"
       and cl' = "Release 0"]
  have "filter is_Call (snd (RunE world_commit_fail cmd0 args0)) = [Call (Release 0)]"
    by blast
  with h r show ?thesis by simp
qed

subsection \<open>The empty token\<close>

text \<open>
  Claim C3. If the configuration that \<open>RunE\<close> loads has the empty string as its bearer
  token, no run of \<open>RunE\<close> dials: its trace holds no \<open>DialContext\<close> event, and it ends
  in an error. When the argument count is one and the flag can be read, the run is exactly
  the reading of the flag and of the configuration (the events of \<open>pullImage\<close> are not
  among them), and the error is the credential error.
\<close>

theorem empty_token_no_network:
  assumes "buildConfigFromFlags w '''' (getenv w ''KUBECONFIG'') = Inr cfg"
    and "BearerToken cfg = ''''"
  shows "filter is_Dial (snd (RunE w c args)) = []
       \<and> (\<exists>e. fst (RunE w c args) = Return (Some e))
       \<and> (length args = 1 \<and> GetBool (flags c) ''insecure'' = Inr b \<longrightarrow>
            RunE w c args =
              (Return (Some (Errorf ''empty token, you need a kubernetes token to pull'')),
               [EvGetBool ''insecure'', EvGetenv ''KUBECONFIG'',
                EvBuildConfigFromFlags '''' (getenv w ''KUBECONFIG'')]))"
  using assms by (cases rule: RunE_cases[of args w c]) auto

theorem empty_token_no_network_witness:
  "buildConfigFromFlags world_no_token '''' (getenv world_no_token ''KUBECONFIG'')
     = Inr \<lparr>BearerToken = ''''\<rparr>
   \<and> RunE world_no_token cmd0 args0 =
       (Return (Some (Errorf ''empty token, you need a kubernetes token to pull'')),
        [EvGetBool ''insecure'', EvGetenv ''KUBECONFIG'',
         EvBuildConfigFromFlags '''' ''/home/u/.kube/config''])
   \<and> filter is_Dial (snd (RunE world_no_token cmd0 args0)) = []"
proof -
  have h: "buildConfigFromFlags world_no_token '''' (getenv world_no_token ''KUBECONFIG'')
     = Inr \<lparr>BearerToken = ''''\<rparr>"
    by (simp add: world_defs)
  have t: "BearerToken \<lparr>BearerToken = ''''\<rparr> = ''''" by simp
  have l: "length args0 = 1" "GetBool (flags cmd0) ''insecure'' = Inr False"
    by (simp_all add: world_defs cmd_defs)
  have g: "getenv world_no_token ''KUBECONFIG'' = ''/home/u/.kube/config''"
    by (simp add: world_defs)
  from empty_token_no_network [OF h t, of cmd0 args0 False] l g h show ?thesis by simp
qed

subsection \<open>The progress bar\<close>

text \<open>
  Claim C5. If \<open>pullImage\<close> has created the progress bar, the last event of its trace is
  the wait for that progress bar: on success, on a failed receive and on a failed parse
  alike, \<open>pullImage\<close> returns only after \<open>pbar.Wait()\<close>.
\<close>

theorem progress_bar_waited_before_return:
  "EvProgbarNew s pb \<in> set (snd (pullImage w idx tok ins)) \<Longrightarrow>
     s = ''Pulling'' \<and> pb = progbarNew w ''Pulling''
     \<and> last (snd (pullImage w idx tok ins)) = EvProgbarWait pb
     \<and> EvProgbarNew s pb \<in> set (butlast (snd (pullImage w idx tok ins)))"
  by (auto simp: pull_defs butlast_append split: sum.splits option.splits prod.splits)

theorem progress_bar_waited_before_return_witness:
  "EvProgbarNew ''Pulling'' (ProgressBar 0)
     \<in> set (snd (pullImage world_parse_fail idx0 ''tok'' False))
   \<and> snd (snd (fst (pullImage world_parse_fail idx0 ''tok'' False)))
       = Some (Wrapf ''error parsing reference: %w'' (Errorf ''unknown transport''))
   \<and> last (snd (pullImage world_parse_fail idx0 ''tok'' False)) = EvProgbarWait (ProgressBar 0)"
proof -
  have h: "EvProgbarNew ''Pulling'' (ProgressBar 0)
     \<in> set (snd (pullImage world_parse_fail idx0 ''tok'' False))"
    by (simp add: pull_defs world_defs)
  have r: "snd (snd (fst (pullImage world_parse_fail idx0 ''tok'' False)))
       = Some (Wrapf ''error parsing reference: %w'' (Errorf ''unknown transport''))"
    by (simp add: pull_defs world_defs)
  from progress_bar_waited_before_return [OF h] h r show ?thesis by simp
qed

subsection \<open>Lifetime of the temp file and of the connection\<close>

text \<open>
  Claim C4. The temp file does not outlive the command. When \<open>pullImage\<close> returns an
  error, no temp file is alive at its return. When it returns without error, exactly the
  file it acquired is alive at its return, and the clean-up function it returns is the
  release function of that file. When \<open>RunE\<close> returns, no temp file is alive, whatever
  way the run went.
\<close>

theorem temp_file_released_when_RunE_returns:
  "(pullImage w idx tok ins = ((r, cu, e), tr) \<longrightarrow>
      (e \<noteq> None \<longrightarrow> files (live tr) = []) \<and>
      (e = None \<longrightarrow> (\<exists>fp cl. cu = Some cl \<and> files (live tr) = [(fp, cl)])))
   \<and> files (live (snd (RunE w' c args))) = []"
proof -
  have a: "(e \<noteq> None \<longrightarrow> files (live tr) = []) \<and>
           (e = None \<longrightarrow> (\<exists>fp cl. cu = Some cl \<and> files (live tr) = [(fp, cl)]))"
    if p: "pullImage w idx tok ins = ((r, cu, e), tr)"
    using pullImage_files[OF p] by blast
  have b: "files (live (snd (RunE w' c args))) = []"
  proof (cases rule: RunE_cases[of args w' c])
    case arity
    then show ?thesis by (simp add: live_def)
  next
    case (flag e)
    then show ?thesis by (simp add: live_def)
  next
    case (config b e)
    then show ?thesis by (simp add: live_def)
  next
    case (token b cfg)
    then show ?thesis by (simp add: live_def)
  next
    case (index b cfg e)
    then show ?thesis by (simp add: live_def)
  next
    case (pull b cfg tidx e ptr)
    have "live (snd (RunE w' c args)) = live ptr"
      using pull(7) by (simp add: live_def)
    with pullImage_files[OF pull(6)] show ?thesis by simp
  next
    case (commit b cfg tidx ref cl0 ptr cerr cevs)
    have "live (snd (RunE w' c args)) = track (live ptr) (Call cl0)"
      using commit(8) commitImage_track(1)[OF commit(7)] by (simp add: live_def)
    moreover from pullImage_files[OF commit(6)]
    obtain fp where "files (live ptr) = [(fp, cl0)]" by auto
    ultimately show ?thesis by simp
  qed
  from a b show ?thesis by blast
qed

theorem temp_file_released_when_RunE_returns_witness:
  "snd (snd (fst (pullImage world_ok idx0 ''tok'' False))) = None
   \<and> fst (snd (fst (pullImage world_ok idx0 ''tok'' False))) = Some (Release 0)
   \<and> files (live (snd (pullImage world_ok idx0 ''tok'' False)))
       = [(File ''/home/u/.image/f1'', Release 0)]
   \<and> files (live (snd (RunE world_ok cmd0 args0))) = []"
proof -
  have e: "snd (snd (fst (pullImage world_ok idx0 ''tok'' False))) = None"
    and cu: "fst (snd (fst (pullImage world_ok idx0 ''tok'' False))) = Some (Release 0)"
    and f: "files (live (snd (pullImage world_ok idx0 ''tok'' False)))
       = [(File ''/home/u/.image/f1'', Release 0)]"
    by (simp_all add: pull_defs world_defs live_def)
  from temp_file_released_when_RunE_returns [where w' = world_ok and c = cmd0 and args = args0]
  have "files (live (snd (RunE world_ok cmd0 args0))) = []" by blast
  with e cu f show ?thesis by simp
qed

text \<open>
  In the run in which every step succeeds, \<open>pullImage\<close> returns while the connection it
  dialled and the temp file it acquired are both alive; when the receive step fails, the
  connection is still alive at its return; and no run closes the connection, so it is
  alive when \<open>RunE\<close> returns as well.
\<close>

theorem session_outlives_pullImage:
  "fst (pullImage world_ok idx0 ''tok'' False)
     = (Some (ImageReference ''docker-archive:/home/u/.image/f1''), Some (Release 0), None)
   \<and> live (snd (pullImage world_ok idx0 ''tok'' False))
     = \<lparr>conns = [ClientConn 0], files = [(File ''/home/u/.image/f1'', Release 0)]\<rparr>
   \<and> fst (pullImage world_recv_fail idx0 ''tok'' False)
     = (None, None, Some (Wrapf ''error receiving file: %w'' (Errorf ''connection reset'')))
   \<and> live (snd (pullImage world_recv_fail idx0 ''tok'' False))
     = \<lparr>conns = [ClientConn 0], files = []\<rparr>
   \<and> live (snd (RunE world_ok cmd0 args0)) = \<lparr>conns = [ClientConn 0], files = []\<rparr>
   \<and> filter is_ConnClose (snd (RunE world_ok cmd0 args0)) = []"
  by (simp add: run_defs pull_defs world_defs cmd_defs live_def)

subsection \<open>The reference to the local archive\<close>

text \<open>
  Claim C6. Whenever \<open>pullImage\<close> parses a reference, the parse directly follows a
  receive that returned no error, on the temp file acquired before, and the string parsed
  is \<open>docker-archive:\<close> followed by the name of that file. If the parse fails,
  \<open>pullImage\<close> calls the release function of the file, waits for the progress bar and
  returns the wrapped error alone; if it succeeds, \<open>pullImage\<close> returns the parsed
  reference with the release function. A reference that \<open>pullImage\<close> returns is always
  the result of such a parse.
\<close>

theorem reference_built_only_after_receive:
  assumes "pullImage w idx tok ins = ((r, cu, e), tr)"
  shows "(EvParseImageName str res \<in> set tr \<longrightarrow>
           (\<exists>pre d st fp cl pb.
              tr = pre @ [EvTempFile d (Inr (fp, cl)), EvProgbarNew ''Pulling'' pb,
                          EvReceive st fp pb None, EvParseImageName str res]
                       @ (case res of Inl pe \<Rightarrow> [Call cl, EvProgbarWait pb]
                                    | Inr ref \<Rightarrow> [EvProgbarWait pb])
              \<and> str = ''docker-archive:'' @ file_Name fp \<and> res = parseImageName w str
              \<and> (r, cu, e) = (case res of
                    Inl pe \<Rightarrow> (None, None, Some (Wrapf ''error parsing reference: %w'' pe))
                  | Inr ref \<Rightarrow> (Some ref, Some cl, None))))
       \<and> (\<forall>ref. r = Some ref \<longrightarrow> (\<exists>s. EvParseImageName s (Inr ref) \<in> set tr))"
proof -
  have a: "\<exists>pre d st fp cl pb.
              tr = pre @ [EvTempFile d (Inr (fp, cl)), EvProgbarNew ''Pulling'' pb,
                          EvReceive st fp pb None, EvParseImageName str res]
                       @ (case res of Inl pe \<Rightarrow> [Call cl, EvProgbarWait pb]
                                    | Inr ref \<Rightarrow> [EvProgbarWait pb])
              \<and> str = ''docker-archive:'' @ file_Name fp \<and> res = parseImageName w str
              \<and> (r, cu, e) = (case res of
                    Inl pe \<Rightarrow> (None, None, Some (Wrapf ''error parsing reference: %w'' pe))
                  | Inr ref \<Rightarrow> (Some ref, Some cl, None))"
    if "EvParseImageName str res \<in> set tr"
    using assms that
    by (auto simp: pull_defs split: sum.splits option.splits prod.splits)
  have b: "\<forall>ref. r = Some ref \<longrightarrow> (\<exists>s. EvParseImageName s (Inr ref) \<in> set tr)"
    using assms
    by (auto simp: pull_defs split: sum.splits option.splits prod.splits)
  from a b show ?thesis by blast
qed

theorem reference_built_only_after_receive_witness:
  "EvParseImageName ''docker-archive:/home/u/.image/f1'' (Inl (Errorf ''unknown transport''))
     \<in> set (snd (pullImage world_parse_fail idx0 ''tok'' False))
   \<and> (fst (fst (pullImage world_parse_fail idx0 ''tok'' False)),
      fst (snd (fst (pullImage world_parse_fail idx0 ''tok'' False))),
      snd (snd (fst (pullImage world_parse_fail idx0 ''tok'' False))))
       = (None, None, Some (Wrapf ''error parsing reference: %w'' (Errorf ''unknown transport'')))
   \<and> filter is_Call (snd (pullImage world_parse_fail idx0 ''tok'' False)) = [Call (Release 0)]"
proof -
  let ?p = "pullImage world_parse_fail idx0 ''tok'' False"
  have eq: "?p = ((fst (fst ?p), fst (snd (fst ?p)), snd (snd (fst ?p))), snd ?p)" by simp
  have h: "EvParseImageName ''docker-archive:/home/u/.image/f1''
             (Inl (Errorf ''unknown transport'')) \<in> set (snd ?p)"
    by (simp add: pull_defs world_defs)
  from reference_built_only_after_receive
         [OF eq, where str = "''docker-archive:/home/u/.image/f1''"
            and res = "Inl (Errorf ''unknown transport'')"] h
  have "(fst (fst ?p), fst (snd (fst ?p)), snd (snd (fst ?p)))
       = (None, None, Some (Wrapf ''error parsing reference: %w'' (Errorf ''unknown transport'')))"
    by auto
  moreover have "filter is_Call (snd ?p) = [Call (Release 0)]"
    by (simp add: pull_defs world_defs)
  ultimately show ?thesis using h by simp
qed

subsection \<open>The insecure flag\<close>

text \<open>
  Claim C7. After \<open>init\<close> the flag \<open>insecure\<close> reads as false. \<open>pullImage\<close> dials
  with a TLS configuration whose \<open>InsecureSkipVerify\<close> is its argument \<open>insecure\<close>,
  and in every run of \<open>RunE\<close> that dials, \<open>InsecureSkipVerify\<close> of the dial is the value
  that the flag \<open>insecure\<close> of the command reads as.
\<close>

theorem insecure_flag_is_InsecureSkipVerify:
  "GetBool (flags (init imagepull)) ''insecure'' = Inr False
   \<and> (EvDialContext s t x \<in> set (snd (pullImage w idx tok ins)) \<longrightarrow>
        InsecureSkipVerify t = ins)
   \<and> (EvDialContext s' t' x' \<in> set (snd (RunE w' c args)) \<longrightarrow>
        GetBool (flags c) ''insecure'' = Inr (InsecureSkipVerify t'))"
proof -
  have a: "GetBool (flags (init imagepull)) ''insecure'' = Inr False"
    by (simp add: init_def imagepull_def Flags_Bool_def GetBool_def)
  have b: "InsecureSkipVerify t = ins"
    if "EvDialContext s t x \<in> set (snd (pullImage w idx tok ins))"
    using pullImage_Dial(2)[OF surjective_pairing that] by simp
  have c: "GetBool (flags c) ''insecure'' = Inr (InsecureSkipVerify t')"
    if m: "EvDialContext s' t' x' \<in> set (snd (RunE w' c args))"
  proof (cases rule: RunE_cases[of args w' c])
    case arity
    then show ?thesis using m by simp
  next
    case (flag e)
    then show ?thesis using m by simp
  next
    case (config b e)
    then show ?thesis using m by simp
  next
    case (token b cfg)
    then show ?thesis using m by simp
  next
    case (index b cfg e)
    then show ?thesis using m by simp
  next
    case (pull b cfg tidx e ptr)
    with m have "EvDialContext s' t' x' \<in> set ptr" by simp
    from pullImage_Dial(2)[OF pull(6) this] pull(2) show ?thesis by simp
  next
    case (commit b cfg tidx ref cl0 ptr cerr cevs)
    with m commitImage_track(3)[OF commit(7)]
    have "EvDialContext s' t' x' \<in> set ptr" by auto
    from pullImage_Dial(2)[OF commit(6) this] commit(2) show ?thesis by simp
  qed
  from a b c show ?thesis by blast
qed

theorem insecure_flag_is_InsecureSkipVerify_witness:
  "EvDialContext ''svc:443'' \<lparr>InsecureSkipVerify = True\<rparr> (Inr (ClientConn 0))
     \<in> set (snd (RunE world_ok cmd_insecure args0))
   \<and> GetBool (flags cmd_insecure) ''insecure'' = Inr True
   \<and> EvDialContext ''svc:443'' \<lparr>InsecureSkipVerify = False\<rparr> (Inr (ClientConn 0))
     \<in> set (snd (RunE world_ok cmd0 args0))
   \<and> GetBool (flags cmd0) ''insecure'' = Inr False"
proof -
  have h1: "EvDialContext ''svc:443'' \<lparr>InsecureSkipVerify = True\<rparr> (Inr (ClientConn 0))
     \<in> set (snd (RunE world_ok cmd_insecure args0))"
    by (simp add: run_defs pull_defs world_defs cmd_defs)
  have h2: "EvDialContext ''svc:443'' \<lparr>InsecureSkipVerify = False\<rparr> (Inr (ClientConn 0))
     \<in> set (snd (RunE world_ok cmd0 args0))"
    by (simp add: run_defs pull_defs world_defs cmd_defs)
  from h1 insecure_flag_is_InsecureSkipVerify
    [where w' = world_ok and c = cmd_insecure and args = args0 and s' = "''svc:443''"
       and t' = "\<lparr>InsecureSkipVerify = True\<rparr>" and x' = "Inr (ClientConn 0)"]
  have g1: "GetBool (flags cmd_insecure) ''insecure'' = Inr True" by simp
  from h2 insecure_flag_is_InsecureSkipVerify
    [where w' = world_ok and c = cmd0 and args = args0 and s' = "''svc:443''"
       and t' = "\<lparr>InsecureSkipVerify = False\<rparr>" and x' = "Inr (ClientConn 0)"]
  have g2: "GetBool (flags cmd0) ''insecure'' = Inr False" by simp
  from h1 h2 g1 g2 show ?thesis by simp
qed

subsection \<open>The policy of the commit\<close>

text \<open>
  Claim C9. In every run of \<open>RunE\<close> that copies the image, the policy context handed to
  the copy is the one built from the policy whose default is the single requirement
  insecure-accept-anything and which has no requirement for any transport; and every
  policy from which the run builds a policy context is that policy.
\<close>

theorem commit_policy_is_accept_anything:
  assumes "EvCopyImage pc d s \<in> set (snd (RunE w c args))"
  shows "newPolicyContext w \<lparr>Default = [PRInsecureAcceptAnything], Transports = []\<rparr> = Inr pc
       \<and> (\<forall>p. EvNewPolicyContext p \<in> set (snd (RunE w c args)) \<longrightarrow>
             p = \<lparr>Default = [PRInsecureAcceptAnything], Transports = []\<rparr>)"
proof (cases rule: RunE_cases[of args w c])
  case arity
  then show ?thesis using assms by simp
next
  case (flag e)
  then show ?thesis using assms by simp
next
  case (config b e)
  then show ?thesis using assms by simp
next
  case (token b cfg)
  then show ?thesis using assms by simp
next
  case (index b cfg e)
  then show ?thesis using assms by simp
next
  case (pull b cfg tidx e ptr)
  then show ?thesis using assms pullImage_no_policy_events(2)[OF pull(6)] by simp
next
  case (commit b cfg tidx ref cl0 ptr cerr cevs)
  from assms commit(8) pullImage_no_policy_events(2)[OF commit(6)]
  have "EvCopyImage pc d s \<in> set cevs" by auto
  from commitImage_policy(2)[OF commit(7) this]
  have a: "newPolicyContext w \<lparr>Default = [PRInsecureAcceptAnything], Transports = []\<rparr> = Inr pc"
    by (simp add: pol_def)
  have b: "p = \<lparr>Default = [PRInsecureAcceptAnything], Transports = []\<rparr>"
    if "EvNewPolicyContext p \<in> set (snd (RunE w c args))" for p
  proof -
    from that commit(8) pullImage_no_policy_events(1)[OF commit(6)]
    have "EvNewPolicyContext p \<in> set cevs" by auto
    from commitImage_policy(1)[OF commit(7) this] show ?thesis by (simp add: pol_def)
  qed
  from a b show ?thesis by blast
qed

theorem commit_policy_is_accept_anything_witness:
  "EvCopyImage (PolicyContext \<lparr>Default = [PRInsecureAcceptAnything], Transports = []\<rparr>)
       (ImageReference ''containers-storage:team-a/app'')
       (ImageReference ''docker-archive:/home/u/.image/f1'')
     \<in> set (snd (RunE world_ok cmd0 args0))
   \<and> filter is_CopyImage (snd (RunE world_ok cmd0 args0))
     = [EvCopyImage (PolicyContext \<lparr>Default = [PRInsecureAcceptAnything], Transports = []\<rparr>)
         (ImageReference ''containers-storage:team-a/app'')
         (ImageReference ''docker-archive:/home/u/.image/f1'')]
   \<and> newPolicyContext world_ok \<lparr>Default = [PRInsecureAcceptAnything], Transports = []\<rparr>
     = Inr (PolicyContext \<lparr>Default = [PRInsecureAcceptAnything], Transports = []\<rparr>)"
proof -
  have h: "EvCopyImage (PolicyContext \<lparr>Default = [PRInsecureAcceptAnything], Transports = []\<rparr>)
       (ImageReference ''containers-storage:team-a/app'')
       (ImageReference ''docker-archive:/home/u/.image/f1'')
     \<in> set (snd (RunE world_ok cmd0 args0))"
    by (simp add: run_defs pull_defs world_defs cmd_defs)
  have f: "filter is_CopyImage (snd (RunE world_ok cmd0 args0))
     = [EvCopyImage (PolicyContext \<lparr>Default = [PRInsecureAcceptAnything], Transports = []\<rparr>)
         (ImageReference ''containers-storage:team-a/app'')
         (ImageReference ''docker-archive:/home/u/.image/f1'')]"
    by (simp add: run_defs pull_defs world_defs cmd_defs)
  from commit_policy_is_accept_anything [OF h] h f show ?thesis by simp
qed

subsection \<open>Order of the checks, and the results of a failed pull\<close>

text \<open>
  Claim C10. If the argument count is one, the flag can be read and the loaded
  configuration has an empty bearer token, \<open>RunE\<close> returns the credential error without
  having called \<open>indexFor\<close>, whatever \<open>indexFor\<close> would have answered, so an error of
  the coordinate is not what is reported. And whenever \<open>pullImage\<close> returns an error, the
  reference and the clean-up function it returns are both nil.
\<close>

theorem token_checked_before_coordinate_and_failed_pull_returns_nil:
  "(length args = 1 \<and> GetBool (flags c) ''insecure'' = Inr b
      \<and> buildConfigFromFlags w '''' (getenv w ''KUBECONFIG'') = Inr cfg
      \<and> BearerToken cfg = '''' \<longrightarrow>
      fst (RunE w c args)
        = Return (Some (Errorf ''empty token, you need a kubernetes token to pull''))
      \<and> (\<forall>a. EvIndexFor a \<notin> set (snd (RunE w c args))))
   \<and> (pullImage w' idx tok ins = ((r, cu, e), tr) \<and> e \<noteq> None \<longrightarrow> r = None \<and> cu = None)"
proof -
  have a: "fst (RunE w c args)
        = Return (Some (Errorf ''empty token, you need a kubernetes token to pull''))
      \<and> (\<forall>a. EvIndexFor a \<notin> set (snd (RunE w c args)))"
    if "length args = 1" "GetBool (flags c) ''insecure'' = Inr b"
      "buildConfigFromFlags w '''' (getenv w ''KUBECONFIG'') = Inr cfg" "BearerToken cfg = ''''"
    using that by (simp add: RunE_def)
  have b: "r = None \<and> cu = None"
    if "pullImage w' idx tok ins = ((r, cu, e), tr)" "e \<noteq> None"
    using pullImage_shape[OF that(1)] that(2) by simp
  from a b show ?thesis by blast
qed

theorem token_checked_before_coordinate_and_failed_pull_returns_nil_witness:
  "indexFor world_no_token (args0 ! 0) = Inl (Errorf ''invalid image reference'')
   \<and> buildConfigFromFlags world_no_token '''' (getenv world_no_token ''KUBECONFIG'')
       = Inr \<lparr>BearerToken = ''''\<rparr>
   \<and> fst (RunE world_no_token cmd0 args0)
       = Return (Some (Errorf ''empty token, you need a kubernetes token to pull''))
   \<and> snd (snd (fst (pullImage world_recv_fail idx0 ''tok'' False)))
       = Some (Wrapf ''error receiving file: %w'' (Errorf ''connection reset''))
   \<and> fst (fst (pullImage world_recv_fail idx0 ''tok'' False)) = None
   \<and> fst (snd (fst (pullImage world_recv_fail idx0 ''tok'' False))) = None"
proof -
  let ?p = "pullImage world_recv_fail idx0 ''tok'' False"
  have i: "indexFor world_no_token (args0 ! 0) = Inl (Errorf ''invalid image reference'')"
    by (simp add: world_defs)
  have h: "length args0 = 1" "GetBool (flags cmd0) ''insecure'' = Inr False"
    "buildConfigFromFlags world_no_token '''' (getenv world_no_token ''KUBECONFIG'')
       = Inr \<lparr>BearerToken = ''''\<rparr>"
    "BearerToken \<lparr>BearerToken = ''''\<rparr> = ''''"
    by (simp_all add: world_defs cmd_defs)
  have eq: "?p = ((fst (fst ?p), fst (snd (fst ?p)), snd (snd (fst ?p))), snd ?p)" by simp
  have e: "snd (snd (fst ?p))
       = Some (Wrapf ''error receiving file: %w'' (Errorf ''connection reset''))"
    by (simp add: pull_defs world_defs)
  note t = token_checked_before_coordinate_and_failed_pull_returns_nil
    [where w = world_no_token and c = cmd0 and args = args0 and b = False
       and cfg = "\<lparr>BearerToken = ''''\<rparr>" and w' = world_recv_fail and idx = idx0
       and tok = "''tok''" and ins = False and r = "fst (fst ?p)" and cu = "fst (snd (fst ?p))"
       and e = "snd (snd (fst ?p))" and tr = "snd ?p"]
  from t h have "fst (RunE world_no_token cmd0 args0)
       = Return (Some (Errorf ''empty token, you need a kubernetes token to pull''))"
    by blast
  moreover from t eq e have "fst (fst ?p) = None \<and> fst (snd (fst ?p)) = None"
    by simp
  ultimately show ?thesis using i h(3) e by simp
qed

end
